theory Spec2Isabelle
  imports Complex_Main
begin

section \<open>Conventions of the embedding\<close>

text \<open>
  The program is the Flask backend \<^verbatim>\<open>app.py\<close> of a coastal monitoring dashboard.
  Python floats are modelled as HOL reals (exact arithmetic; no NaN, no infinities),
  Python integers as \<^typ>\<open>int\<close>. The process-wide globals (\<^verbatim>\<open>dummy_mode_enabled\<close>,
  \<^verbatim>\<open>_prev\<close>, \<^verbatim>\<open>settings\<close>) and the table \<^verbatim>\<open>sensor_data\<close> are passed explicitly
  and returned updated. The draws of \<^verbatim>\<open>random.uniform\<close> and the readings of the clock
  (\<^verbatim>\<open>datetime.now\<close>) are inputs of the functions that make them. A leading underscore
  of a Python name is dropped.
\<close>

datatype py_error = ZeroDivisionError

section \<open>Sensor-value helpers\<close>

definition clamp :: "real \<Rightarrow> real \<Rightarrow> real \<Rightarrow> real" where
  "clamp v lo hi = max lo (min hi v)"

text \<open>
  Python's \<^verbatim>\<open>round(x, nd)\<close> on the reals: the nearest multiple of \<open>10 ^ - nd\<close>, a tie
  going to the even multiple.
\<close>

definition py_round :: "real \<Rightarrow> nat \<Rightarrow> real" where
  "py_round x nd =
     (let y = x * 10 ^ nd; f = \<lfloor>y\<rfloor>; d = y - of_int f
      in (if d < 1 / 2 then of_int f
          else if 1 / 2 < d then of_int (f + 1)
          else if even f then of_int f else of_int (f + 1)) / 10 ^ nd)"

text \<open>The dictionary \<^verbatim>\<open>_prev\<close>, with its two fixed keys.\<close>

record prev_state =
  prev_sea_level :: real
  prev_wind_speed :: real

definition prev_init :: prev_state where
  "prev_init = \<lparr>prev_sea_level = 130, prev_wind_speed = 10\<rparr>"

text \<open>
  \<^verbatim>\<open>generate_sensor_values\<close>: \<open>delta_sea\<close> and \<open>delta_wind\<close> are the values drawn by
  \<^verbatim>\<open>random.uniform(-8, 8)\<close> and \<^verbatim>\<open>random.uniform(-3, 3)\<close>. The result is the returned
  pair (sea level, wind speed) and the updated \<^verbatim>\<open>_prev\<close>.
\<close>

definition generate_sensor_values ::
  "prev_state \<Rightarrow> real \<Rightarrow> real \<Rightarrow> (real \<times> real) \<times> prev_state" where
  "generate_sensor_values prev delta_sea delta_wind =
     (let new_sea = clamp (prev_sea_level prev + delta_sea) 50 250;
          new_wind = clamp (prev_wind_speed prev + delta_wind) 1 25;
          prev' = prev\<lparr>prev_sea_level := new_sea, prev_wind_speed := new_wind\<rparr>
      in ((py_round new_sea 2, py_round new_wind 2), prev'))"

section \<open>Status classification\<close>

datatype status = Normal | Warning | Danger

definition priority :: "status \<Rightarrow> nat" where
  "priority s = (case s of Normal \<Rightarrow> 0 | Warning \<Rightarrow> 1 | Danger \<Rightarrow> 2)"

text \<open>
  Python's two-argument \<^verbatim>\<open>max(a, b, key=k)\<close>: the first argument unless the second has
  a strictly larger key.
\<close>

definition max_key :: "('a \<Rightarrow> nat) \<Rightarrow> 'a \<Rightarrow> 'a \<Rightarrow> 'a" where
  "max_key k a b = (if k a < k b then b else a)"

definition compute_status :: "real \<Rightarrow> real \<Rightarrow> status \<times> status \<times> status" where
  "compute_status sl ws =
     (let sea_status = (if sl < 120 then Normal else if sl \<le> 180 then Warning else Danger);
          wind_status = (if ws < 10 then Normal else if ws \<le> 18 then Warning else Danger);
          overall = max_key priority sea_status wind_status
      in (sea_status, wind_status, overall))"

section \<open>Dummy mode\<close>

text \<open>
  \<^verbatim>\<open>api_toggle_dummy\<close> and \<^verbatim>\<open>api_dummy_status\<close>: the flag \<^verbatim>\<open>dummy_mode_enabled\<close> is
  the state; the result is the value of the key \<^verbatim>\<open>dummy_mode\<close> of the JSON body and
  the flag after the call.
\<close>

definition api_toggle_dummy :: "bool \<Rightarrow> bool \<times> bool" where
  "api_toggle_dummy dummy_mode_enabled =
     (let dummy_mode_enabled' = \<not> dummy_mode_enabled;
          state = dummy_mode_enabled'
      in (state, dummy_mode_enabled'))"

definition api_dummy_status :: "bool \<Rightarrow> bool \<times> bool" where
  "api_dummy_status dummy_mode_enabled =
     (let state = dummy_mode_enabled in (state, dummy_mode_enabled))"

section \<open>The table of samples\<close>

text \<open>
  A row of \<^verbatim>\<open>sensor_data\<close>. The table is the list of its rows in ascending \<^verbatim>\<open>id\<close>
  (the order of insertion, the key being \<^verbatim>\<open>AUTOINCREMENT\<close>).
\<close>

record sample =
  sea_level :: real
  wind_speed :: real
  timestamp :: string

text \<open>\<^verbatim>\<open>insert_record\<close>: \<open>ts\<close> is the formatted reading of the clock.\<close>

definition insert_record ::
  "real \<Rightarrow> real \<Rightarrow> string \<Rightarrow> sample list \<Rightarrow> string \<times> sample list" where
  "insert_record sl ws ts sensor_data =
     (ts, sensor_data @ [\<lparr>sea_level = sl, wind_speed = ws, timestamp = ts\<rparr>])"

datatype post_body = Post_error string | Post_ok string string

text \<open>
  \<^verbatim>\<open>post_sensor_data\<close>: \<open>sea\<close> and \<open>wind\<close> are \<^verbatim>\<open>data.get("sea_level")\<close> and
  \<^verbatim>\<open>data.get("wind_speed")\<close> of a payload whose values are JSON numbers (\<open>None\<close> for
  an absent key or \<^verbatim>\<open>null\<close>); the result is the body, the HTTP status and the table.
\<close>

definition post_sensor_data ::
  "real option \<Rightarrow> real option \<Rightarrow> string \<Rightarrow> sample list \<Rightarrow> (post_body \<times> nat) \<times> sample list" where
  "post_sensor_data sea wind ts sensor_data =
     (case (sea, wind) of
        (Some sl, Some ws) \<Rightarrow>
          (let (ts', sensor_data') = insert_record sl ws ts sensor_data
           in ((Post_ok ''ok'' ts', 201), sensor_data'))
      | _ \<Rightarrow> ((Post_error ''sea_level and wind_speed required'', 400), sensor_data))"

section \<open>Prediction\<close>

definition truediv :: "real \<Rightarrow> real \<Rightarrow> py_error + real" where
  "truediv a b = (if b = 0 then Inl ZeroDivisionError else Inr (a / b))"

text \<open>The locals \<^verbatim>\<open>sx\<close>, \<^verbatim>\<open>sxx\<close> and \<^verbatim>\<open>denom\<close> of \<^verbatim>\<open>_linear_regression\<close>, for \<^verbatim>\<open>n = len(ys)\<close>.\<close>

definition lr_sx :: "nat \<Rightarrow> int" where
  "lr_sx n = sum_list (map int [0..<n])"

definition lr_sxx :: "nat \<Rightarrow> int" where
  "lr_sxx n = sum_list (map (\<lambda>i. int i * int i) [0..<n])"

definition lr_denom :: "nat \<Rightarrow> int" where
  "lr_denom n = int n * lr_sxx n - lr_sx n * lr_sx n"

definition linear_regression :: "real list \<Rightarrow> py_error + (real \<times> real)" where
  "linear_regression ys =
     (let n = length ys in
      if n < 2 then Inr (0, (case ys of [] \<Rightarrow> 0 | y # _ \<Rightarrow> y))
      else
        let sx = lr_sx n;
            sy = sum_list ys;
            sxx = lr_sxx n;
            sxy = sum_list (map (\<lambda>(i, y). real i * y) (enumerate 0 ys));
            denom = lr_denom n
        in if denom = 0 then
             (case truediv sy (real n) of
                Inl e \<Rightarrow> Inl e
              | Inr mean \<Rightarrow> Inr (0, mean))
           else
             (case truediv (real n * sxy - real_of_int sx * sy) (real_of_int denom) of
                Inl e \<Rightarrow> Inl e
              | Inr slope \<Rightarrow>
                  (case truediv (sy - slope * real_of_int sx) (real n) of
                     Inl e \<Rightarrow> Inl e
                   | Inr intercept \<Rightarrow> Inr (slope, intercept))))"

text \<open>The dictionary \<^verbatim>\<open>settings\<close>, with its three fixed keys.\<close>

record settings =
  data_interval :: int
  chart_points :: int
  prediction_days :: int

definition settings_init :: settings where
  "settings_init = \<lparr>data_interval = 3, chart_points = 50, prediction_days = 7\<rparr>"

text \<open>
  The clock is read as seconds since the epoch, in UTC. \<open>utc_date\<close> is the calendar day
  of an instant, counted from the epoch: the day that \<^verbatim>\<open>strftime("%Y-%m-%d")\<close> prints.
\<close>

definition utc_date :: "int \<Rightarrow> int" where
  "utc_date t = t div 86400"

definition timedelta_days :: "int \<Rightarrow> int" where
  "timedelta_days d = d * 86400"

record prediction =
  day :: int
  date :: int
  p_sea_level :: real
  p_wind_speed :: real
  p_sea_status :: status
  p_wind_status :: status
  p_overall_status :: status

definition steps_per_day :: real where
  "steps_per_day = (24 * 3600) / 3"

definition future_idx :: "nat \<Rightarrow> int \<Rightarrow> real" where
  "future_idx n d = real n + real_of_int d * steps_per_day"

text \<open>The body of the loop of \<^verbatim>\<open>api_prediction\<close>: the entry appended for one day.\<close>

definition predict_day ::
  "real \<Rightarrow> real \<Rightarrow> real \<Rightarrow> real \<Rightarrow> nat \<Rightarrow> int \<Rightarrow> int \<Rightarrow> prediction" where
  "predict_day sea_slope sea_int wind_slope wind_int n now d =
     (let pred_sea = sea_int + sea_slope * future_idx n d;
          pred_wind = wind_int + wind_slope * future_idx n d;
          pred_sea = pred_sea + 15 * sin (real_of_int d * 0.9);
          pred_wind = pred_wind + 3 * sin (real_of_int d * 1.1 + 0.5);
          pred_sea = max 50 (min 250 (py_round pred_sea 2));
          pred_wind = max 1 (min 25 (py_round pred_wind 2));
          (sea_s, wind_s, overall) = compute_status pred_sea pred_wind
      in \<lparr>day = d, date = utc_date (now + timedelta_days d),
          p_sea_level = pred_sea, p_wind_speed = pred_wind,
          p_sea_status = sea_s, p_wind_status = wind_s, p_overall_status = overall\<rparr>)"

datatype prediction_body = Prediction_error string | Predictions "prediction list"

text \<open>
  \<^verbatim>\<open>api_prediction\<close>: the result is the JSON body and the HTTP status, or the exception
  that a division raised.
\<close>

definition api_prediction ::
  "settings \<Rightarrow> sample list \<Rightarrow> int \<Rightarrow> py_error + (prediction_body \<times> nat)" where
  "api_prediction stg sensor_data now =
     (let days = prediction_days stg;
          rows = take 200 (rev sensor_data)
      in if length rows < 2 then Inr (Prediction_error ''not enough data for prediction'', 200)
         else
           let rows = rev rows;
               sea_vals = map sea_level rows;
               wind_vals = map wind_speed rows
           in case linear_regression sea_vals of
                Inl e \<Rightarrow> Inl e
              | Inr (sea_slope, sea_int) \<Rightarrow>
                  (case linear_regression wind_vals of
                     Inl e \<Rightarrow> Inl e
                   | Inr (wind_slope, wind_int) \<Rightarrow>
                       (let n = length sea_vals
                        in Inr (Predictions
                                 (map (predict_day sea_slope sea_int wind_slope wind_int n now)
                                    [1..days]), 200))))"

section \<open>Settings\<close>

text \<open>
  A value of the settings payload is a JSON number; \<^verbatim>\<open>int\<close> leaves an integer as it is
  and truncates a float towards zero.
\<close>

datatype json_number = JInt int | JFloat real

fun py_int :: "json_number \<Rightarrow> int" where
  "py_int (JInt i) = i"
| "py_int (JFloat r) = (if 0 \<le> r then \<lfloor>r\<rfloor> else \<lceil>r\<rceil>)"

definition api_get_settings :: "settings \<Rightarrow> settings \<times> settings" where
  "api_get_settings stg = (stg, stg)"

text \<open>
  \<^verbatim>\<open>api_update_settings\<close>: \<open>data\<close> is the payload, a dictionary from keys to JSON numbers;
  the result is the JSON body (a copy of the dictionary \<^verbatim>\<open>settings\<close>) and the updated
  \<^verbatim>\<open>settings\<close>.
\<close>

definition api_update_settings ::
  "settings \<Rightarrow> (string \<rightharpoonup> json_number) \<Rightarrow> settings \<times> settings" where
  "api_update_settings stg data =
     (let stg = (case data ''data_interval'' of
                   None \<Rightarrow> stg
                 | Some v \<Rightarrow> stg\<lparr>data_interval := max 1 (min 60 (py_int v))\<rparr>);
          stg = (case data ''chart_points'' of
                   None \<Rightarrow> stg
                 | Some v \<Rightarrow> stg\<lparr>chart_points := max 10 (min 500 (py_int v))\<rparr>);
          stg = (case data ''prediction_days'' of
                   None \<Rightarrow> stg
                 | Some v \<Rightarrow> stg\<lparr>prediction_days := max 1 (min 30 (py_int v))\<rparr>)
      in (stg, stg))"

section \<open>Status classification: thresholds and overall status\<close>

text \<open>
  C3. For every real sea level the sea status is Normal exactly below 120, Warning
  exactly from 120 to 180 (both included) and Danger exactly above 180; for every real
  wind speed the wind status is Normal exactly below 10, Warning exactly from 10 to 18
  (both included) and Danger exactly above 18.
\<close>

theorem compute_status_thresholds:
  "(fst (compute_status sl ws) = Normal \<longleftrightarrow> sl < 120)
   \<and> (fst (compute_status sl ws) = Warning \<longleftrightarrow> (120 \<le> sl \<and> sl \<le> 180))
   \<and> (fst (compute_status sl ws) = Danger \<longleftrightarrow> 180 < sl)
   \<and> (fst (snd (compute_status sl ws)) = Normal \<longleftrightarrow> ws < 10)
   \<and> (fst (snd (compute_status sl ws)) = Warning \<longleftrightarrow> (10 \<le> ws \<and> ws \<le> 18))
   \<and> (fst (snd (compute_status sl ws)) = Danger \<longleftrightarrow> 18 < ws)"
  by (simp add: compute_status_def Let_def)

lemma priority_order: "priority Normal < priority Warning \<and> priority Warning < priority Danger"
  by (simp add: priority_def)

lemma compute_status_overall:
  "compute_status sl ws = (s, w, ov) \<Longrightarrow> ov = max_key priority s w"
  by (auto simp add: compute_status_def Let_def)

text \<open>
  C4. With the severity order Normal < Warning < Danger given by \<open>priority\<close>, the overall
  status of a classification is the more severe of the sea status and the wind status:
  its rank is the maximum of the two ranks, so it is never less severe than either, it
  is one of the two, and it is their shared level when they are equal. The triple is a
  function of the two inputs alone: equal inputs give the same triple.
\<close>

theorem compute_status_overall_max:
  assumes "compute_status sl ws = (s, w, ov)"
  shows "priority Normal < priority Warning \<and> priority Warning < priority Danger
    \<and> priority ov = max (priority s) (priority w)
    \<and> priority s \<le> priority ov \<and> priority w \<le> priority ov
    \<and> (ov = s \<or> ov = w)
    \<and> (s = w \<longrightarrow> ov = s)
    \<and> (\<forall>sl' ws'. sl' = sl \<and> ws' = ws \<longrightarrow> compute_status sl' ws' = (s, w, ov))"
  using compute_status_overall [OF assms] assms priority_order
  by (simp add: max_key_def max_def)

theorem compute_status_overall_max_witness:
  "compute_status 150 12 = (Warning, Warning, Warning)
   \<and> compute_status 200 5 = (Danger, Normal, Danger)
   \<and> priority Normal \<le> priority Danger
   \<and> priority Danger = max (priority Danger) (priority Normal)"
proof -
  have tie: "compute_status 150 12 = (Warning, Warning, Warning)"
    by (simp add: compute_status_def max_key_def)
  have mix: "compute_status 200 5 = (Danger, Normal, Danger)"
    by (simp add: compute_status_def max_key_def priority_def)
  show ?thesis
    using tie mix compute_status_overall_max [OF tie] compute_status_overall_max [OF mix]
    by simp
qed

section \<open>Dummy mode: the toggle\<close>

text \<open>
  C9. Toggling the dummy mode twice gives back the flag it started from; a toggle
  answers with the flag as it is after the toggle, which is the negation of the flag
  before it; and a status query made after a toggle answers with that toggle's result
  (never with the flag before the toggle) and leaves the flag as it is.
\<close>

theorem toggle_dummy_involution:
  "snd (api_toggle_dummy (snd (api_toggle_dummy b))) = b
   \<and> fst (api_toggle_dummy b) = snd (api_toggle_dummy b)
   \<and> fst (api_toggle_dummy b) = (\<not> b)
   \<and> fst (api_dummy_status (snd (api_toggle_dummy b))) = fst (api_toggle_dummy b)
   \<and> fst (api_dummy_status (snd (api_toggle_dummy b))) \<noteq> b
   \<and> snd (api_dummy_status b) = b"
  by (simp add: api_toggle_dummy_def api_dummy_status_def Let_def)

section \<open>Linear regression: the divisions\<close>

lemma lr_sx_closed: "2 * lr_sx n = int n * (int n - 1)"
  by (induction n) (simp_all add: lr_sx_def algebra_simps)

lemma lr_sxx_closed: "6 * lr_sxx n = (int n - 1) * int n * (2 * int n - 1)"
  by (induction n) (simp_all add: lr_sxx_def algebra_simps)

lemma lr_denom_closed: "12 * lr_denom n = int n * int n * (int n - 1) * (int n + 1)"
proof -
  have "12 * lr_denom n = 2 * int n * (6 * lr_sxx n) - 3 * ((2 * lr_sx n) * (2 * lr_sx n))"
    by (simp add: lr_denom_def algebra_simps)
  also have "\<dots> = 2 * int n * ((int n - 1) * int n * (2 * int n - 1))
       - 3 * ((int n * (int n - 1)) * (int n * (int n - 1)))"
    by (simp only: lr_sx_closed lr_sxx_closed)
  also have "\<dots> = int n * int n * (int n - 1) * (int n + 1)"
    by (simp add: algebra_simps)
  finally show ?thesis .
qed

lemma lr_denom_pos:
  assumes "2 \<le> n"
  shows "0 < lr_denom n"
proof -
  have "0 < int n * int n * (int n - 1) * (int n + 1)"
    using assms by simp
  then have "0 < 12 * lr_denom n"
    by (simp only: lr_denom_closed)
  then show ?thesis by simp
qed

lemma linear_regression_fit:
  assumes "2 \<le> length ys"
  shows "linear_regression ys =
     (let n = length ys;
          sy = sum_list ys;
          sxy = sum_list (map (\<lambda>(i, y). real i * y) (enumerate 0 ys));
          slope = (real n * sxy - real_of_int (lr_sx n) * sy) / real_of_int (lr_denom n);
          intercept = (sy - slope * real_of_int (lr_sx n)) / real n
      in Inr (slope, intercept))"
proof -
  have d: "lr_denom (length ys) \<noteq> 0"
    using lr_denom_pos [OF assms] by simp
  have n: "\<not> length ys < 2" "ys \<noteq> []"
    using assms by auto
  show ?thesis
    by (simp add: linear_regression_def Let_def truediv_def d n)
qed

lemma linear_regression_total: "\<exists>slope intercept. linear_regression ys = Inr (slope, intercept)"
proof (cases "2 \<le> length ys")
  case True
  then show ?thesis by (simp add: linear_regression_fit Let_def)
next
  case False
  then show ?thesis by (simp add: linear_regression_def)
qed

text \<open>
  C10. For a list of at least two values the denominator \<open>n * sxx - sx * sx\<close> of the
  regression is strictly positive, so the branch for a zero denominator is not taken
  and both divisions (by the denominator and by \<open>n\<close>) are defined: the result is the
  least-squares slope and intercept. For a list of one value the result is slope 0 and
  that value as intercept, for the empty list slope 0 and intercept 0, neither through
  a division. No list makes a division fail.
\<close>

theorem linear_regression_division_safe:
  "(2 \<le> length ys \<longrightarrow>
      0 < lr_denom (length ys) \<and>
      linear_regression ys =
        (let n = length ys;
             sy = sum_list ys;
             sxy = sum_list (map (\<lambda>(i, y). real i * y) (enumerate 0 ys));
             slope = (real n * sxy - real_of_int (lr_sx n) * sy) / real_of_int (lr_denom n);
             intercept = (sy - slope * real_of_int (lr_sx n)) / real n
         in Inr (slope, intercept)))
   \<and> linear_regression [y] = Inr (0, y)
   \<and> linear_regression [] = Inr (0, 0)
   \<and> (\<exists>slope intercept. linear_regression ys = Inr (slope, intercept))"
proof -
  have short: "linear_regression [y] = Inr (0, y)" "linear_regression [] = Inr (0, 0)"
    by (simp_all add: linear_regression_def)
  show ?thesis
    using short linear_regression_total [of ys] lr_denom_pos [of "length ys"]
      linear_regression_fit [of ys]
    by simp
qed

theorem linear_regression_division_safe_witness:
  "2 \<le> length [100, 110 :: real] \<and> 0 < lr_denom 2
   \<and> linear_regression [100, 110] = Inr (10, 100)
   \<and> linear_regression [7] = Inr (0, 7)"
  using linear_regression_division_safe [of "[100, 110]" 7]
  by (simp add: lr_sx_def lr_sxx_def lr_denom_def enumerate_eq_zip upt_rec Let_def)

section \<open>Rounding keeps bounds\<close>

lemma py_round_cases:
  "py_round x nd = of_int \<lfloor>x * 10 ^ nd\<rfloor> / 10 ^ nd
   \<or> (py_round x nd = of_int (\<lfloor>x * 10 ^ nd\<rfloor> + 1) / 10 ^ nd
       \<and> 1 / 2 \<le> x * 10 ^ nd - of_int \<lfloor>x * 10 ^ nd\<rfloor>)"
  by (auto simp add: py_round_def Let_def)

lemma py_round_ge:
  assumes "of_int k \<le> x * 10 ^ nd"
  shows "of_int k / 10 ^ nd \<le> py_round x nd"
proof -
  have "k \<le> \<lfloor>x * 10 ^ nd\<rfloor>"
    using assms by (simp add: le_floor_iff)
  then have "(of_int k :: real) \<le> of_int \<lfloor>x * 10 ^ nd\<rfloor>"
    "(of_int k :: real) \<le> of_int (\<lfloor>x * 10 ^ nd\<rfloor> + 1)"
    by simp_all
  then show ?thesis
    using py_round_cases [of x nd] by (auto simp add: divide_right_mono)
qed

lemma py_round_le:
  assumes "x * 10 ^ nd \<le> of_int k"
  shows "py_round x nd \<le> of_int k / 10 ^ nd"
proof -
  let ?f = "\<lfloor>x * 10 ^ nd\<rfloor>"
  have f: "(of_int ?f :: real) \<le> of_int k"
    using assms of_int_floor_le [of "x * 10 ^ nd"] by linarith
  have "1 / 2 \<le> x * 10 ^ nd - of_int ?f \<Longrightarrow> (of_int (?f + 1) :: real) \<le> of_int k"
  proof -
    assume "1 / 2 \<le> x * 10 ^ nd - of_int ?f"
    then have "(of_int ?f :: real) < of_int k" using assms by linarith
    then have "?f < k" by (simp only: of_int_less_iff)
    then have "?f + 1 \<le> k" by simp
    then show ?thesis by (simp only: of_int_le_iff)
  qed
  then show ?thesis
    using py_round_cases [of x nd] f by (auto simp add: divide_right_mono)
qed

lemma py_round_near: "\<bar>py_round x nd - x\<bar> \<le> 1 / (2 * 10 ^ nd)"
proof -
  let ?s = "(10::real) ^ nd"
  let ?y = "x * ?s"
  let ?f = "\<lfloor>?y\<rfloor>"
  have s: "0 < ?s" by simp
  have fl: "of_int ?f \<le> ?y" "?y < of_int ?f + 1"
    by linarith+
  have "\<bar>py_round x nd * ?s - ?y\<bar> \<le> 1 / 2"
    using fl by (auto simp add: py_round_def Let_def)
  then have "\<bar>(py_round x nd - x) * ?s\<bar> \<le> 1 / 2"
    by (simp add: algebra_simps)
  then have "\<bar>py_round x nd - x\<bar> * ?s \<le> 1 / 2"
    by (simp add: abs_mult)
  then have "\<bar>py_round x nd - x\<bar> \<le> (1 / 2) / ?s"
    using s by (simp add: pos_le_divide_eq)
  then show ?thesis by simp
qed

lemma py_round2_bounds:
  "50 \<le> x \<Longrightarrow> 50 \<le> py_round x 2" "x \<le> 250 \<Longrightarrow> py_round x 2 \<le> 250"
  "1 \<le> x \<Longrightarrow> 1 \<le> py_round x 2" "x \<le> 25 \<Longrightarrow> py_round x 2 \<le> 25"
  "250 \<le> x \<Longrightarrow> 250 \<le> py_round x 2"  "25 \<le> x \<Longrightarrow> 25 \<le> py_round x 2"
  using py_round_ge [of 5000 x 2] py_round_le [of x 2 25000]
    py_round_ge [of 100 x 2] py_round_le [of x 2 2500] py_round_ge [of 25000 x 2] py_round_ge [of 2500 x 2]
  by simp_all

section \<open>The forecast\<close>

lemma api_prediction_short:
  assumes "length sensor_data < 2"
  shows "api_prediction stg sensor_data now =
    Inr (Prediction_error ''not enough data for prediction'', 200)"
  using assms by (simp add: api_prediction_def Let_def)

lemma api_prediction_long:
  assumes "2 \<le> length sensor_data"
  shows "\<exists>sea_slope sea_int wind_slope wind_int.
    linear_regression (map sea_level (rev (take 200 (rev sensor_data)))) = Inr (sea_slope, sea_int)
    \<and> linear_regression (map wind_speed (rev (take 200 (rev sensor_data)))) = Inr (wind_slope, wind_int)
    \<and> api_prediction stg sensor_data now =
      Inr (Predictions
            (map (predict_day sea_slope sea_int wind_slope wind_int
                    (min (length sensor_data) 200) now)
               [1..prediction_days stg]), 200)"
proof -
  obtain sea_slope sea_int where
    s: "linear_regression (map sea_level (rev (take 200 (rev sensor_data)))) = Inr (sea_slope, sea_int)"
    using linear_regression_total by blast
  obtain wind_slope wind_int where
    w: "linear_regression (map wind_speed (rev (take 200 (rev sensor_data)))) = Inr (wind_slope, wind_int)"
    using linear_regression_total by blast
  have n: "\<not> min (length sensor_data) 200 < 2"
    using assms by simp
  show ?thesis
    using s w n by (simp add: api_prediction_def Let_def)
qed

lemma predict_day_day: "day (predict_day a b c d n now k) = k"
  by (simp add: predict_day_def Let_def split: prod.splits)

lemma utc_date_shift: "utc_date (now + timedelta_days k) = utc_date now + k"
  by (simp add: utc_date_def timedelta_days_def)

lemma predict_day_date: "date (predict_day a b c d n now k) = utc_date now + k"
  by (simp add: predict_day_def Let_def utc_date_shift split: prod.splits)

lemma predict_day_same_date:
  "utc_date now = utc_date now' \<Longrightarrow> predict_day a b c d n now k = predict_day a b c d n now' k"
  by (simp add: predict_day_def Let_def utc_date_shift split: prod.splits)

lemma predict_day_clock:
  "(predict_day a b c d n now k)\<lparr>date := x\<rparr> = (predict_day a b c d n now' k)\<lparr>date := x\<rparr>"
  by (simp add: predict_day_def Let_def split: prod.splits)

lemma predict_day_bounds:
  "50 \<le> p_sea_level (predict_day a b c d n now k) \<and> p_sea_level (predict_day a b c d n now k) \<le> 250
   \<and> 1 \<le> p_wind_speed (predict_day a b c d n now k) \<and> p_wind_speed (predict_day a b c d n now k) \<le> 25"
  by (simp add: predict_day_def Let_def split: prod.splits)


text \<open>
  C2. On a table of at least two samples, and for a setting \<open>prediction_days\<close> that is
  not negative (every setting is between 1 and 30), the forecast answers with status
  200 and a list of exactly \<open>prediction_days\<close> entries whose days are 1, 2, ... up to
  \<open>prediction_days\<close> in this order. On a table of fewer than two samples it answers
  with status 200 and the body "not enough data for prediction": no entry, no exception.
\<close>

theorem forecast_contract:
  "(2 \<le> length sensor_data \<and> 0 \<le> prediction_days stg \<longrightarrow>
      (\<exists>ps. api_prediction stg sensor_data now = Inr (Predictions ps, 200)
         \<and> int (length ps) = prediction_days stg
         \<and> map day ps = [1..prediction_days stg]))
   \<and> (length sensor_data < 2 \<longrightarrow>
        api_prediction stg sensor_data now =
          Inr (Prediction_error ''not enough data for prediction'', 200))"
proof -
  have "\<exists>ps. api_prediction stg sensor_data now = Inr (Predictions ps, 200)
         \<and> int (length ps) = prediction_days stg
         \<and> map day ps = [1..prediction_days stg]"
    if l: "2 \<le> length sensor_data" and d: "0 \<le> prediction_days stg"
  proof -
    obtain a b c e where
      "api_prediction stg sensor_data now =
        Inr (Predictions (map (predict_day a b c e (min (length sensor_data) 200) now)
               [1..prediction_days stg]), 200)"
      using api_prediction_long [OF l] by blast
    moreover have "map day (map (predict_day a b c e (min (length sensor_data) 200) now)
               [1..prediction_days stg]) = [1..prediction_days stg]"
      by (simp add: comp_def predict_day_day)
    moreover have "int (length (map (predict_day a b c e (min (length sensor_data) 200) now)
               [1..prediction_days stg])) = prediction_days stg"
      using d by simp
    ultimately show ?thesis by blast
  qed
  then show ?thesis
    using api_prediction_short [of sensor_data stg now] by blast
qed

theorem forecast_contract_witness:
  "2 \<le> length [\<lparr>sea_level = 100, wind_speed = 5, timestamp = ''a''\<rparr>,
           \<lparr>sea_level = 110, wind_speed = 6, timestamp = ''b''\<rparr>]
   \<and> 0 \<le> prediction_days settings_init
   \<and> (\<exists>ps. api_prediction settings_init
          [\<lparr>sea_level = 100, wind_speed = 5, timestamp = ''a''\<rparr>,
           \<lparr>sea_level = 110, wind_speed = 6, timestamp = ''b''\<rparr>] 0 = Inr (Predictions ps, 200)
         \<and> int (length ps) = 7 \<and> map day ps = [1, 2, 3, 4, 5, 6, 7])
   \<and> api_prediction settings_init [\<lparr>sea_level = 100, wind_speed = 5, timestamp = ''a''\<rparr>] 0
       = Inr (Prediction_error ''not enough data for prediction'', 200)
   \<and> api_prediction settings_init [] 0
       = Inr (Prediction_error ''not enough data for prediction'', 200)"
  using forecast_contract [of "[\<lparr>sea_level = 100, wind_speed = 5, timestamp = ''a''\<rparr>,
           \<lparr>sea_level = 110, wind_speed = 6, timestamp = ''b''\<rparr>]" settings_init 0]
    forecast_contract [of "[\<lparr>sea_level = 100, wind_speed = 5, timestamp = ''a''\<rparr>]" settings_init 0]
    forecast_contract [of "[]" settings_init 0]
  by (simp add: settings_init_def upto_rec1)

lemma api_prediction_two_samples:
  "api_prediction \<lparr>data_interval = di, chart_points = cp, prediction_days = 1\<rparr>
          [\<lparr>sea_level = 100, wind_speed = 5, timestamp = t0\<rparr>,
           \<lparr>sea_level = 110, wind_speed = 6, timestamp = t1\<rparr>] now
      = Inr (Predictions [predict_day 10 100 1 5 2 now 1], 200)"
proof -
  have sea: "linear_regression [100, 110] = Inr (10, 100)"
    by (simp add: linear_regression_def lr_sx_def lr_sxx_def lr_denom_def truediv_def
        enumerate_eq_zip upt_rec Let_def)
  have wind: "linear_regression [5, 6] = Inr (1, 5)"
    by (simp add: linear_regression_def lr_sx_def lr_sxx_def lr_denom_def truediv_def
        enumerate_eq_zip upt_rec Let_def)
  show ?thesis
    by (simp add: api_prediction_def Let_def sea wind flip: numeral_2_eq_2)
qed






section \<open>Bounds\<close>

lemma generate_bounds:
  "50 \<le> fst (fst (generate_sensor_values prev delta_sea delta_wind))
   \<and> fst (fst (generate_sensor_values prev delta_sea delta_wind)) \<le> 250
   \<and> 1 \<le> snd (fst (generate_sensor_values prev delta_sea delta_wind))
   \<and> snd (fst (generate_sensor_values prev delta_sea delta_wind)) \<le> 25"
  by (simp add: generate_sensor_values_def Let_def clamp_def py_round2_bounds)

lemma api_prediction_bounds:
  assumes "api_prediction stg sensor_data now = Inr (Predictions ps, code)"
  shows "\<forall>p \<in> set ps. 50 \<le> p_sea_level p \<and> p_sea_level p \<le> 250
      \<and> 1 \<le> p_wind_speed p \<and> p_wind_speed p \<le> 25"
proof (cases "2 \<le> length sensor_data")
  case True
  then obtain a b c e where
    "api_prediction stg sensor_data now =
        Inr (Predictions (map (predict_day a b c e (min (length sensor_data) 200) now)
               [1..prediction_days stg]), 200)"
    using api_prediction_long by blast
  then have "ps = map (predict_day a b c e (min (length sensor_data) 200) now)
               [1..prediction_days stg]"
    using assms by simp
  then show ?thesis
    using predict_day_bounds by auto
next
  case False
  then show ?thesis
    using assms by (simp add: api_prediction_short)
qed

lemma post_stored:
  "post_sensor_data (Some sl) (Some ws) ts sensor_data =
     ((Post_ok ''ok'' ts, 201),
      sensor_data @ [\<lparr>sea_level = sl, wind_speed = ws, timestamp = ts\<rparr>])"
  by (simp add: post_sensor_data_def insert_record_def)

text \<open>
  C5. Whatever the previous values and the two drawn deltas are (so in particular for
  deltas in [-8, 8] and [-3, 3]), the generated pair has its sea level in [50, 250] and
  its wind speed in [1, 25]; every entry of a forecast has its sea level in [50, 250]
  and its wind speed in [1, 25]; and a posted sample with both values present is
  appended to the table with exactly the posted values, whatever they are.
\<close>

theorem bounds_by_clamping:
  "50 \<le> fst (fst (generate_sensor_values prev delta_sea delta_wind))
   \<and> fst (fst (generate_sensor_values prev delta_sea delta_wind)) \<le> 250
   \<and> 1 \<le> snd (fst (generate_sensor_values prev delta_sea delta_wind))
   \<and> snd (fst (generate_sensor_values prev delta_sea delta_wind)) \<le> 25
   \<and> (api_prediction stg sensor_data now = Inr (Predictions ps, code) \<longrightarrow>
        (\<forall>p \<in> set ps. 50 \<le> p_sea_level p \<and> p_sea_level p \<le> 250
           \<and> 1 \<le> p_wind_speed p \<and> p_wind_speed p \<le> 25))
   \<and> post_sensor_data (Some sl) (Some ws) ts sensor_data =
        ((Post_ok ''ok'' ts, 201),
         sensor_data @ [\<lparr>sea_level = sl, wind_speed = ws, timestamp = ts\<rparr>])"
  using generate_bounds [of prev delta_sea delta_wind]
    api_prediction_bounds [of stg sensor_data now ps code]
    post_stored [of sl ws ts sensor_data]
  by blast

theorem bounds_by_clamping_witness:
  "fst (generate_sensor_values \<lparr>prev_sea_level = 249, prev_wind_speed = 2\<rparr> 8 (- 3)) = (250, 1)
   \<and> api_prediction settings_init
        [\<lparr>sea_level = 100, wind_speed = 5, timestamp = ''a''\<rparr>,
         \<lparr>sea_level = 110, wind_speed = 6, timestamp = ''b''\<rparr>] 0
      = Inr (Predictions (map (predict_day 10 100 1 5 2 0) [1, 2, 3, 4, 5, 6, 7]), 200)
   \<and> 50 \<le> p_sea_level (predict_day 10 100 1 5 2 0 3)
   \<and> p_sea_level (predict_day 10 100 1 5 2 0 3) \<le> 250
   \<and> 1 \<le> p_wind_speed (predict_day 10 100 1 5 2 0 3)
   \<and> p_wind_speed (predict_day 10 100 1 5 2 0 3) \<le> 25
   \<and> snd (post_sensor_data (Some 1000) (Some (- 5)) ''t''
          [\<lparr>sea_level = 100, wind_speed = 5, timestamp = ''a''\<rparr>,
           \<lparr>sea_level = 110, wind_speed = 6, timestamp = ''b''\<rparr>]) =
        [\<lparr>sea_level = 100, wind_speed = 5, timestamp = ''a''\<rparr>,
         \<lparr>sea_level = 110, wind_speed = 6, timestamp = ''b''\<rparr>,
         \<lparr>sea_level = 1000, wind_speed = - 5, timestamp = ''t''\<rparr>]"
proof -
  have sea: "linear_regression [100, 110] = Inr (10, 100)"
    by (simp add: linear_regression_def lr_sx_def lr_sxx_def lr_denom_def truediv_def
        enumerate_eq_zip upt_rec Let_def)
  have wind: "linear_regression [5, 6] = Inr (1, 5)"
    by (simp add: linear_regression_def lr_sx_def lr_sxx_def lr_denom_def truediv_def
        enumerate_eq_zip upt_rec Let_def)
  have run: "api_prediction settings_init
        [\<lparr>sea_level = 100, wind_speed = 5, timestamp = ''a''\<rparr>,
         \<lparr>sea_level = 110, wind_speed = 6, timestamp = ''b''\<rparr>] 0
      = Inr (Predictions (map (predict_day 10 100 1 5 2 0) [1, 2, 3, 4, 5, 6, 7]), 200)"
    by (simp add: api_prediction_def settings_init_def Let_def sea wind upto_rec1
        flip: numeral_2_eq_2)
  have gen: "fst (generate_sensor_values \<lparr>prev_sea_level = 249, prev_wind_speed = 2\<rparr> 8 (- 3))
      = (250, 1)"
    by (simp add: generate_sensor_values_def clamp_def py_round_def Let_def)
  show ?thesis
    using run gen
      bounds_by_clamping [of "\<lparr>prev_sea_level = 249, prev_wind_speed = 2\<rparr>" 8 "- 3"
        settings_init
        "[\<lparr>sea_level = 100, wind_speed = 5, timestamp = ''a''\<rparr>,
          \<lparr>sea_level = 110, wind_speed = 6, timestamp = ''b''\<rparr>]" 0
        "map (predict_day 10 100 1 5 2 0) [1, 2, 3, 4, 5, 6, 7]" 200 1000 "- 5" "''t''"]
    by simp
qed

section \<open>Settings: the update\<close>

lemma api_update_settings_fields:
  "data_interval (snd (api_update_settings stg data)) =
     (case data ''data_interval'' of None \<Rightarrow> data_interval stg
      | Some v \<Rightarrow> max 1 (min 60 (py_int v)))"
  "chart_points (snd (api_update_settings stg data)) =
     (case data ''chart_points'' of None \<Rightarrow> chart_points stg
      | Some v \<Rightarrow> max 10 (min 500 (py_int v)))"
  "prediction_days (snd (api_update_settings stg data)) =
     (case data ''prediction_days'' of None \<Rightarrow> prediction_days stg
      | Some v \<Rightarrow> max 1 (min 30 (py_int v)))"
  "fst (api_update_settings stg data) = snd (api_update_settings stg data)"
  by (simp_all add: api_update_settings_def Let_def split: option.splits)

lemma api_update_settings_in_range:
  assumes "1 \<le> prediction_days stg \<and> prediction_days stg \<le> 30"
  shows "1 \<le> prediction_days (snd (api_update_settings stg data))
    \<and> prediction_days (snd (api_update_settings stg data)) \<le> 30"
  using assms by (simp add: api_update_settings_fields split: option.splits)

text \<open>
  C6. An update with a payload of JSON numbers answers with the settings as they are
  after it. A key absent from the payload leaves its setting as it was; a key present
  sets its setting to the integer value of the payload clamped to the bounds of the
  setting: [1, 60] for \<open>data_interval\<close>, [10, 500] for \<open>chart_points\<close>, [1, 30] for
  \<open>prediction_days\<close>. So the payload with \<open>data_interval\<close> 0 sets \<open>data_interval\<close> to 1,
  the payload with \<open>chart_points\<close> 1000 sets \<open>chart_points\<close> to 500, both leaving the other
  settings, and the empty payload changes nothing.
\<close>

theorem settings_update_clamps:
  "fst (api_update_settings stg data) = snd (api_update_settings stg data)
   \<and> (data ''data_interval'' = None \<longrightarrow>
        data_interval (snd (api_update_settings stg data)) = data_interval stg)
   \<and> (data ''chart_points'' = None \<longrightarrow>
        chart_points (snd (api_update_settings stg data)) = chart_points stg)
   \<and> (data ''prediction_days'' = None \<longrightarrow>
        prediction_days (snd (api_update_settings stg data)) = prediction_days stg)
   \<and> (\<forall>v. data ''data_interval'' = Some v \<longrightarrow>
        data_interval (snd (api_update_settings stg data)) = max 1 (min 60 (py_int v))
        \<and> 1 \<le> data_interval (snd (api_update_settings stg data))
        \<and> data_interval (snd (api_update_settings stg data)) \<le> 60)
   \<and> (\<forall>v. data ''chart_points'' = Some v \<longrightarrow>
        chart_points (snd (api_update_settings stg data)) = max 10 (min 500 (py_int v))
        \<and> 10 \<le> chart_points (snd (api_update_settings stg data))
        \<and> chart_points (snd (api_update_settings stg data)) \<le> 500)
   \<and> (\<forall>v. data ''prediction_days'' = Some v \<longrightarrow>
        prediction_days (snd (api_update_settings stg data)) = max 1 (min 30 (py_int v))
        \<and> 1 \<le> prediction_days (snd (api_update_settings stg data))
        \<and> prediction_days (snd (api_update_settings stg data)) \<le> 30)
   \<and> api_update_settings stg [''data_interval'' \<mapsto> JInt 0] = (stg\<lparr>data_interval := 1\<rparr>, stg\<lparr>data_interval := 1\<rparr>)
   \<and> api_update_settings stg [''chart_points'' \<mapsto> JInt 1000] = (stg\<lparr>chart_points := 500\<rparr>, stg\<lparr>chart_points := 500\<rparr>)
   \<and> api_update_settings stg Map.empty = (stg, stg)"
proof -
  have ex: "api_update_settings stg [''data_interval'' \<mapsto> JInt 0] = (stg\<lparr>data_interval := 1\<rparr>, stg\<lparr>data_interval := 1\<rparr>)"
    "api_update_settings stg [''chart_points'' \<mapsto> JInt 1000] = (stg\<lparr>chart_points := 500\<rparr>, stg\<lparr>chart_points := 500\<rparr>)"
    "api_update_settings stg Map.empty = (stg, stg)"
    by (simp_all add: api_update_settings_def Let_def)
  show ?thesis
    using ex by (simp add: api_update_settings_fields)
qed

theorem settings_update_clamps_witness:
  "api_update_settings settings_init [''data_interval'' \<mapsto> JFloat 99.5, ''chart_points'' \<mapsto> JInt (- 4)]
    = (\<lparr>data_interval = 60, chart_points = 10, prediction_days = 7\<rparr>,
       \<lparr>data_interval = 60, chart_points = 10, prediction_days = 7\<rparr>)
   \<and> api_update_settings settings_init [''prediction_days'' \<mapsto> JInt 12]
    = (\<lparr>data_interval = 3, chart_points = 50, prediction_days = 12\<rparr>,
       \<lparr>data_interval = 3, chart_points = 50, prediction_days = 12\<rparr>)"
proof -
  have a: "api_update_settings settings_init [''data_interval'' \<mapsto> JFloat 99.5, ''chart_points'' \<mapsto> JInt (- 4)]
    = (\<lparr>data_interval = 60, chart_points = 10, prediction_days = 7\<rparr>,
       \<lparr>data_interval = 60, chart_points = 10, prediction_days = 7\<rparr>)"
   and b: "api_update_settings settings_init [''prediction_days'' \<mapsto> JInt 12]
    = (\<lparr>data_interval = 3, chart_points = 50, prediction_days = 12\<rparr>,
       \<lparr>data_interval = 3, chart_points = 50, prediction_days = 12\<rparr>)"
    by (simp_all add: api_update_settings_def settings_init_def Let_def)
  show ?thesis
    using a b settings_update_clamps [of settings_init "[''data_interval'' \<mapsto> JFloat 99.5, ''chart_points'' \<mapsto> JInt (- 4)]"]
       settings_update_clamps [of settings_init "[''prediction_days'' \<mapsto> JInt 12]"]
    by simp
qed

section \<open>The forecast and the clock\<close>

lemma api_prediction_same_date:
  assumes "utc_date now = utc_date now'"
  shows "api_prediction stg sensor_data now = api_prediction stg sensor_data now'"
proof (cases "2 \<le> length sensor_data")
  case True
  obtain a b c e where
    sea: "linear_regression (map sea_level (rev (take 200 (rev sensor_data)))) = Inr (a, b)"
    and wind: "linear_regression (map wind_speed (rev (take 200 (rev sensor_data)))) = Inr (c, e)"
    using api_prediction_long [OF True] by blast
  have n: "\<not> min (length sensor_data) 200 < 2"
    using True by simp
  show ?thesis
    using predict_day_same_date [OF assms]
    by (simp add: api_prediction_def Let_def sea wind n)
next
  case False
  then show ?thesis by (simp add: api_prediction_short)
qed

lemma api_prediction_clock:
  assumes "api_prediction stg sensor_data now = Inr (Predictions ps, code)"
  shows "\<exists>ps'. api_prediction stg sensor_data now' = Inr (Predictions ps', code)
     \<and> map (\<lambda>p. p\<lparr>date := 0\<rparr>) ps' = map (\<lambda>p. p\<lparr>date := 0\<rparr>) ps
     \<and> map date ps = map (\<lambda>d. utc_date now + d) [1..prediction_days stg]
     \<and> map date ps' = map (\<lambda>d. utc_date now' + d) [1..prediction_days stg]"
proof (cases "2 \<le> length sensor_data")
  case True
  obtain a b c e where
    sea: "linear_regression (map sea_level (rev (take 200 (rev sensor_data)))) = Inr (a, b)"
    and wind: "linear_regression (map wind_speed (rev (take 200 (rev sensor_data)))) = Inr (c, e)"
    using api_prediction_long [OF True] by blast
  have n: "\<not> min (length sensor_data) 200 < 2"
    using True by simp
  have run: "api_prediction stg sensor_data t =
      Inr (Predictions (map (predict_day a b c e (min (length sensor_data) 200) t)
             [1..prediction_days stg]), 200)" for t
    by (simp add: api_prediction_def Let_def sea wind n)
  have ps: "ps = map (predict_day a b c e (min (length sensor_data) 200) now)
             [1..prediction_days stg]" and code: "code = 200"
    using assms run [of now] by simp_all
  have strip: "(predict_day a b c e (min (length sensor_data) 200) now' k)\<lparr>date := 0\<rparr>
      = (predict_day a b c e (min (length sensor_data) 200) now k)\<lparr>date := 0\<rparr>" for k
    by (rule predict_day_clock)
  show ?thesis
    by (simp add: run ps code comp_def predict_day_date strip)
next
  case False
  then show ?thesis
    using assms by (simp add: api_prediction_short)
qed

text \<open>
  C7, as the code has it. The forecast draws no random value, and its answer is a
  function of the table, of \<open>prediction_days\<close> and of the calendar day of the clock:
  two calls on the same table on the same calendar day give the same answer. The
  clock decides the field \<open>date\<close> of the entries (the day of the call plus the number of
  the entry) and nothing else: two calls at any two instants give entries that are equal
  but for \<open>date\<close>.
\<close>

theorem forecast_deterministic_per_date:
  "(utc_date now = utc_date now' \<longrightarrow>
      api_prediction stg sensor_data now = api_prediction stg sensor_data now')
   \<and> (api_prediction stg sensor_data now = Inr (Predictions ps, code) \<longrightarrow>
       (\<exists>ps'. api_prediction stg sensor_data now' = Inr (Predictions ps', code)
         \<and> map (\<lambda>p. p\<lparr>date := 0\<rparr>) ps' = map (\<lambda>p. p\<lparr>date := 0\<rparr>) ps
         \<and> map date ps = map (\<lambda>d. utc_date now + d) [1..prediction_days stg]
         \<and> map date ps' = map (\<lambda>d. utc_date now' + d) [1..prediction_days stg]))"
  using api_prediction_same_date [of now now' stg sensor_data]
    api_prediction_clock [of stg sensor_data now ps code now']
  by blast

theorem forecast_deterministic_per_date_witness:
  "utc_date 1704153500 = utc_date 1704153599
   \<and> api_prediction \<lparr>data_interval = 3, chart_points = 50, prediction_days = 1\<rparr>
          [\<lparr>sea_level = 100, wind_speed = 5, timestamp = ''2024-01-01 23:59:57''\<rparr>,
           \<lparr>sea_level = 110, wind_speed = 6, timestamp = ''2024-01-01 23:59:58''\<rparr>] 1704153500
     = api_prediction \<lparr>data_interval = 3, chart_points = 50, prediction_days = 1\<rparr>
          [\<lparr>sea_level = 100, wind_speed = 5, timestamp = ''2024-01-01 23:59:57''\<rparr>,
           \<lparr>sea_level = 110, wind_speed = 6, timestamp = ''2024-01-01 23:59:58''\<rparr>] 1704153599
   \<and> (\<exists>ps'. api_prediction \<lparr>data_interval = 3, chart_points = 50, prediction_days = 1\<rparr>
          [\<lparr>sea_level = 100, wind_speed = 5, timestamp = ''2024-01-01 23:59:57''\<rparr>,
           \<lparr>sea_level = 110, wind_speed = 6, timestamp = ''2024-01-01 23:59:58''\<rparr>] 1704153600 = Inr (Predictions ps', 200)
        \<and> map (\<lambda>p. p\<lparr>date := 0\<rparr>) ps' = [(predict_day 10 100 1 5 2 1704153599 1)\<lparr>date := 0\<rparr>]
        \<and> map date ps' = [19725])"
proof -
  have d: "utc_date 1704153500 = utc_date 1704153599"
    by (simp add: utc_date_def)
  have run: "api_prediction \<lparr>data_interval = 3, chart_points = 50, prediction_days = 1\<rparr>
          [\<lparr>sea_level = 100, wind_speed = 5, timestamp = ''2024-01-01 23:59:57''\<rparr>,
           \<lparr>sea_level = 110, wind_speed = 6, timestamp = ''2024-01-01 23:59:58''\<rparr>] 1704153599
      = Inr (Predictions [predict_day 10 100 1 5 2 1704153599 1], 200)"
    by (rule api_prediction_two_samples)
  show ?thesis
    using d run
      forecast_deterministic_per_date [where now = 1704153500 and now' = 1704153599
        and stg = "\<lparr>data_interval = 3, chart_points = 50, prediction_days = 1\<rparr>"
        and sensor_data = "[\<lparr>sea_level = 100, wind_speed = 5, timestamp = ''2024-01-01 23:59:57''\<rparr>,
           \<lparr>sea_level = 110, wind_speed = 6, timestamp = ''2024-01-01 23:59:58''\<rparr>]"
        and ps = "[]" and code = 0]
      forecast_deterministic_per_date [where now = 1704153599 and now' = 1704153600
        and stg = "\<lparr>data_interval = 3, chart_points = 50, prediction_days = 1\<rparr>"
        and sensor_data = "[\<lparr>sea_level = 100, wind_speed = 5, timestamp = ''2024-01-01 23:59:57''\<rparr>,
           \<lparr>sea_level = 110, wind_speed = 6, timestamp = ''2024-01-01 23:59:58''\<rparr>]"
        and ps = "[predict_day 10 100 1 5 2 1704153599 1]" and code = 200]
    by (auto simp add: utc_date_def)
qed

text \<open>
  The claim C7 as stated fails: on one table and one \<open>prediction_days\<close>, a call one
  second before midnight UTC and a call at midnight give different answers.
\<close>

theorem forecast_depends_on_clock:
  "api_prediction \<lparr>data_interval = 3, chart_points = 50, prediction_days = 1\<rparr>
          [\<lparr>sea_level = 100, wind_speed = 5, timestamp = ''2024-01-01 23:59:57''\<rparr>,
           \<lparr>sea_level = 110, wind_speed = 6, timestamp = ''2024-01-01 23:59:58''\<rparr>] 1704153599
   \<noteq> api_prediction \<lparr>data_interval = 3, chart_points = 50, prediction_days = 1\<rparr>
          [\<lparr>sea_level = 100, wind_speed = 5, timestamp = ''2024-01-01 23:59:57''\<rparr>,
           \<lparr>sea_level = 110, wind_speed = 6, timestamp = ''2024-01-01 23:59:58''\<rparr>] 1704153600"
proof
  assume "api_prediction \<lparr>data_interval = 3, chart_points = 50, prediction_days = 1\<rparr>
          [\<lparr>sea_level = 100, wind_speed = 5, timestamp = ''2024-01-01 23:59:57''\<rparr>,
           \<lparr>sea_level = 110, wind_speed = 6, timestamp = ''2024-01-01 23:59:58''\<rparr>] 1704153599
   = api_prediction \<lparr>data_interval = 3, chart_points = 50, prediction_days = 1\<rparr>
          [\<lparr>sea_level = 100, wind_speed = 5, timestamp = ''2024-01-01 23:59:57''\<rparr>,
           \<lparr>sea_level = 110, wind_speed = 6, timestamp = ''2024-01-01 23:59:58''\<rparr>] 1704153600"
  then have "predict_day 10 100 1 5 2 1704153599 1 = predict_day 10 100 1 5 2 1704153600 1"
    by (simp add: api_prediction_two_samples)
  then have "date (predict_day 10 100 1 5 2 1704153599 1)
      = date (predict_day 10 100 1 5 2 1704153600 1)"
    by simp
  then show False
    by (simp add: predict_day_date utc_date_def)
qed

section \<open>The generator: stored and returned values\<close>

lemma generate_state:
  "snd (generate_sensor_values prev delta_sea delta_wind) =
     \<lparr>prev_sea_level = clamp (prev_sea_level prev + delta_sea) 50 250,
      prev_wind_speed = clamp (prev_wind_speed prev + delta_wind) 1 25\<rparr>"
  by (simp add: generate_sensor_values_def Let_def)

lemma generate_result:
  "fst (generate_sensor_values prev delta_sea delta_wind) =
     (py_round (prev_sea_level (snd (generate_sensor_values prev delta_sea delta_wind))) 2,
      py_round (prev_wind_speed (snd (generate_sensor_values prev delta_sea delta_wind))) 2)"
  by (simp add: generate_sensor_values_def Let_def)

text \<open>
  C8, as the code has it. A call of the generator stores the clamped new values as
  they are, not rounded, and returns these stored values rounded to 2 decimal places:
  the returned pair is the rounding of the stored pair and differs from it by at most
  0.005 in each component. The next call starts from the stored values: its result is
  the rounding of the clamped sum of the stored value and the new delta.
\<close>

theorem generator_state_unrounded:
  "snd (generate_sensor_values prev delta_sea delta_wind) =
     \<lparr>prev_sea_level = clamp (prev_sea_level prev + delta_sea) 50 250,
      prev_wind_speed = clamp (prev_wind_speed prev + delta_wind) 1 25\<rparr>
   \<and> fst (generate_sensor_values prev delta_sea delta_wind) =
     (py_round (prev_sea_level (snd (generate_sensor_values prev delta_sea delta_wind))) 2,
      py_round (prev_wind_speed (snd (generate_sensor_values prev delta_sea delta_wind))) 2)
   \<and> \<bar>fst (fst (generate_sensor_values prev delta_sea delta_wind))
        - prev_sea_level (snd (generate_sensor_values prev delta_sea delta_wind))\<bar> \<le> 1 / 200
   \<and> \<bar>snd (fst (generate_sensor_values prev delta_sea delta_wind))
        - prev_wind_speed (snd (generate_sensor_values prev delta_sea delta_wind))\<bar> \<le> 1 / 200
   \<and> fst (generate_sensor_values (snd (generate_sensor_values prev delta_sea delta_wind))
          delta_sea' delta_wind') =
     (py_round (clamp (clamp (prev_sea_level prev + delta_sea) 50 250 + delta_sea') 50 250) 2,
      py_round (clamp (clamp (prev_wind_speed prev + delta_wind) 1 25 + delta_wind') 1 25) 2)"
proof -
  have near: "\<bar>py_round x 2 - x\<bar> \<le> 1 / 200" for x
    using py_round_near [of x 2] by simp
  show ?thesis
    using near [of "clamp (prev_sea_level prev + delta_sea) 50 250"]
      near [of "clamp (prev_wind_speed prev + delta_wind) 1 25"]
    by (simp add: generate_result generate_state)
qed

text \<open>
  The claim C8 as stated fails: from the initial values, with the deltas 0.004 and 0,
  the stored sea level is 130.004 and the returned one 130; and a second call with the
  same deltas returns 130.01, where a walk from the returned values would return 130.
\<close>

theorem generator_state_differs_from_result:
  "prev_sea_level (snd (generate_sensor_values prev_init 0.004 0))
     \<noteq> fst (fst (generate_sensor_values prev_init 0.004 0))
   \<and> fst (generate_sensor_values (snd (generate_sensor_values prev_init 0.004 0)) 0.004 0)
     \<noteq> fst (generate_sensor_values
           \<lparr>prev_sea_level = fst (fst (generate_sensor_values prev_init 0.004 0)),
            prev_wind_speed = snd (fst (generate_sensor_values prev_init 0.004 0))\<rparr> 0.004 0)"
  by (simp add: generate_sensor_values_def prev_init_def clamp_def py_round_def Let_def)

end
